theory Spec2Isabelle
  imports Main
begin

section \<open>Values, rows and exceptions\<close>

text \<open>
  The cells of a query result are JSON values decoded by \<^verbatim>\<open>json.loads\<close>. The program only
  compares a cell with a string literal, tests it against \<^verbatim>\<open>None\<close> and renders it with
  \<^verbatim>\<open>str\<close>, so a value that is neither null, nor a string, nor an integer (a boolean, a float,
  an array, an object) is carried as \<open>PyOther\<close> together with its \<^verbatim>\<open>str\<close> rendering.
\<close>

datatype pyval = PyNone | PyStr string | PyInt int | PyOther string

text \<open>A row is a Python dictionary from column names to cells.\<close>

type_synonym row = "string \<rightharpoonup> pyval"

text \<open>
  Exceptions derived from \<^verbatim>\<open>Exception\<close>: the \<^verbatim>\<open>KeyError\<close> of a dictionary subscript (with the
  missing key), and any exception raised by an external call (the SDK, \<^verbatim>\<open>json.loads\<close>), carried
  with its \<^verbatim>\<open>str\<close> message.
\<close>

datatype pyexn = KeyError string | Raised string

subsection \<open>Decimal rendering and \<^verbatim>\<open>str\<close>\<close>

definition digit_char :: "nat \<Rightarrow> char" where
  "digit_char d = char_of (48 + d)"

fun str_nat :: "nat \<Rightarrow> string" where
  "str_nat n = (if n < 10 then [digit_char n] else str_nat (n div 10) @ [digit_char (n mod 10)])"

declare str_nat.simps [simp del]

definition str_int :: "int \<Rightarrow> string" where
  "str_int i = (if i < 0 then CHR ''-'' # str_nat (nat (- i)) else str_nat (nat i))"

text \<open>\<^verbatim>\<open>str(v)\<close>, which is also what an f-string field \<^verbatim>\<open>{v}\<close> renders.\<close>

fun py_str :: "pyval \<Rightarrow> string" where
  "py_str PyNone = ''None''"
| "py_str (PyStr s) = s"
| "py_str (PyInt i) = str_int i"
| "py_str (PyOther s) = s"

section \<open>Content Selector\<close>

text \<open>\<^verbatim>\<open>d[k]\<close> on a dictionary: the value, or \<^verbatim>\<open>KeyError(k)\<close> when the key is absent.\<close>

definition subscript :: "row \<Rightarrow> string \<Rightarrow> pyexn + pyval" where
  "subscript d k = (case d k of None \<Rightarrow> Inl (KeyError k) | Some v \<Rightarrow> Inr v)"

text \<open>
  \<^verbatim>\<open>[dashboard['dashboard.id'] for dashboard in content
     if dashboard['content_usage.content_type'] == 'dashboard'
        and dashboard['dashboard.id'] is not None]\<close>

  The comprehension walks the rows in order; \<^verbatim>\<open>and\<close> evaluates its right operand only when the
  left one is true; an exception in any row abandons the whole list. The element expression
  subscripts the same unchanged dictionary with the key the condition has just read, so the
  model reuses that value.
\<close>

fun get_dashboard_ids :: "row list \<Rightarrow> pyexn + pyval list" where
  "get_dashboard_ids [] = Inr []"
| "get_dashboard_ids (dashboard # content) =
     (case subscript dashboard ''content_usage.content_type'' of
        Inl e \<Rightarrow> Inl e
      | Inr t \<Rightarrow>
          if t = PyStr ''dashboard'' then
            (case subscript dashboard ''dashboard.id'' of
               Inl e \<Rightarrow> Inl e
             | Inr v \<Rightarrow>
                 if v \<noteq> PyNone then
                   (case get_dashboard_ids content of
                      Inl e \<Rightarrow> Inl e
                    | Inr vs \<Rightarrow> Inr (v # vs))
                 else get_dashboard_ids content)
          else get_dashboard_ids content)"

text \<open>
  \<^verbatim>\<open>[look['look.id'] for look in content if look['content_usage.content_type'] == 'look']\<close>
\<close>

fun get_look_ids :: "row list \<Rightarrow> pyexn + pyval list" where
  "get_look_ids [] = Inr []"
| "get_look_ids (look # content) =
     (case subscript look ''content_usage.content_type'' of
        Inl e \<Rightarrow> Inl e
      | Inr t \<Rightarrow>
          if t = PyStr ''look'' then
            (case subscript look ''look.id'' of
               Inl e \<Rightarrow> Inl e
             | Inr v \<Rightarrow>
                 (case get_look_ids content of
                    Inl e \<Rightarrow> Inl e
                  | Inr vs \<Rightarrow> Inr (v # vs)))
          else get_look_ids content)"

subsection \<open>The selectors as the specification words them\<close>

text \<open>
  \<open>dashboardIds\<close>: the rows whose content type is \<open>dashboard\<close> and whose dashboard id is
  non-null, in row order, each contributing its dashboard id.
\<close>

definition dashboardIds :: "row list \<Rightarrow> pyval list" where
  "dashboardIds rows =
     map (\<lambda>r. the (r ''dashboard.id''))
       (filter (\<lambda>r. r ''content_usage.content_type'' = Some (PyStr ''dashboard'')
                   \<and> r ''dashboard.id'' \<noteq> None \<and> r ''dashboard.id'' \<noteq> Some PyNone) rows)"

text \<open>\<open>lookIds\<close>: the rows whose content type is \<open>look\<close>, the look id taken as it is.\<close>

definition lookIds :: "row list \<Rightarrow> pyval list" where
  "lookIds rows =
     map (\<lambda>r. the (r ''look.id''))
       (filter (\<lambda>r. r ''content_usage.content_type'' = Some (PyStr ''look'')) rows)"

text \<open>The keys a selector reads in a row: the content type, and the id of a row of its type.\<close>

definition dashboard_keys :: "row \<Rightarrow> bool" where
  "dashboard_keys r \<longleftrightarrow>
     r ''content_usage.content_type'' \<noteq> None
     \<and> (r ''content_usage.content_type'' = Some (PyStr ''dashboard'') \<longrightarrow> r ''dashboard.id'' \<noteq> None)"

definition look_keys :: "row \<Rightarrow> bool" where
  "look_keys r \<longleftrightarrow>
     r ''content_usage.content_type'' \<noteq> None
     \<and> (r ''content_usage.content_type'' = Some (PyStr ''look'') \<longrightarrow> r ''look.id'' \<noteq> None)"

section \<open>The remote platform\<close>

text \<open>
  The request bodies of the SDK, with the fields the program sets. \<open>query_fields\<close> is the
  \<^verbatim>\<open>fields\<close> of a query; the fields of a plan and of its destination carry the prefixes
  \<open>plan_\<close> and \<open>dest_\<close>.
\<close>

record write_query =
  model :: string
  view :: string
  query_fields :: "string list"
  dynamic_fields :: "string option"
  pivots :: "string list option"
  fill_fields :: "string list option"
  filters :: "(string \<times> string) list"
  filter_expression :: string
  sorts :: "string list"
  limit :: string

datatype write_dashboard = WriteDashboard (dashboard_deleted: bool)

datatype write_look = WriteLookWithQuery (look_deleted: bool)

record scheduled_plan_destination =
  dest_format :: string
  dest_type :: string
  dest_address :: string
  dest_message :: string
  dest_apply_formatting :: bool
  dest_apply_vis :: bool

record write_scheduled_plan =
  plan_name :: string
  plan_query_id :: string
  plan_scheduled_plan_destination :: "scheduled_plan_destination list"

text \<open>The plan the remote answers \<^verbatim>\<open>scheduled_plan_run_once\<close> with: its id and its name.\<close>

datatype scheduled_plan = ScheduledPlan string string

text \<open>
  The requests the SDK can send to the remote platform. \<open>Delete_dashboard\<close> and \<open>Delete_look\<close>
  are the irreversible removals.
\<close>

datatype request =
    Create_query write_query
  | Run_query string string bool
  | Update_dashboard string write_dashboard
  | Update_look string write_look
  | Delete_dashboard string
  | Delete_look string
  | Scheduled_plan_run_once write_scheduled_plan

text \<open>
  The log of a run: every request sent to the remote, and every entry into one of the four
  mutation operations with the identifier it was called on.
\<close>

datatype operation =
  SoftDeleteDashboard | SoftDeleteLook | HardDeleteDashboard | HardDeleteLook

datatype event = Sent request | Entered operation pyval

fun sent :: "event list \<Rightarrow> request list" where
  "sent [] = []"
| "sent (Sent r # es) = r # sent es"
| "sent (Entered _ _ # es) = sent es"

fun calls :: "event list \<Rightarrow> (operation \<times> pyval) list" where
  "calls [] = []"
| "calls (Sent _ # es) = calls es"
| "calls (Entered f i # es) = (f, i) # calls es"

text \<open>
  What the program cannot decide itself. Each SDK method answers a request, given the requests
  sent before it, either with a value or by raising an exception (\<open>Inl\<close> of its \<^verbatim>\<open>str\<close>
  message). \<open>create_query\<close> answers with the \<^verbatim>\<open>id\<close> of the created query. \<open>json_loads\<close> is
  \<^verbatim>\<open>json.loads\<close> on the payload of a query run, whose result the program takes to be a list of
  dictionaries. \<open>today\<close> is \<^verbatim>\<open>datetime.today().strftime('%Y-%m-%d')\<close> at that point of the run.
\<close>

record env =
  create_query :: "request list \<Rightarrow> write_query \<Rightarrow> string + string"
  run_query :: "request list \<Rightarrow> string \<Rightarrow> string \<Rightarrow> bool \<Rightarrow> string + string"
  update_dashboard :: "request list \<Rightarrow> string \<Rightarrow> write_dashboard \<Rightarrow> string + unit"
  update_look :: "request list \<Rightarrow> string \<Rightarrow> write_look \<Rightarrow> string + unit"
  scheduled_plan_run_once :: "request list \<Rightarrow> write_scheduled_plan \<Rightarrow> string + scheduled_plan"
  json_loads :: "string \<Rightarrow> string + row list"
  today :: "request list \<Rightarrow> string"

text \<open>
  A statement sequence: from the log so far to a result (a raised exception or a value) and the
  extended log.
\<close>

type_synonym 'a io = "event list \<Rightarrow> (pyexn + 'a) \<times> event list"

definition return_io :: "'a \<Rightarrow> 'a io" where
  "return_io v log = (Inr v, log)"

definition lift_io :: "pyexn + 'a \<Rightarrow> 'a io" where
  "lift_io r log = (r, log)"

definition bind_io :: "'a io \<Rightarrow> ('a \<Rightarrow> 'b io) \<Rightarrow> 'b io" where
  "bind_io m f log = (case m log of (Inl e, log') \<Rightarrow> (Inl e, log') | (Inr v, log') \<Rightarrow> f v log')"

text \<open>An SDK call outside any \<^verbatim>\<open>try\<close>: the request is logged, an exception propagates.\<close>

definition sdk_call :: "request \<Rightarrow> (request list \<Rightarrow> string + 'a) \<Rightarrow> 'a io" where
  "sdk_call r answer log =
     (case answer (sent log) of
        Inl e \<Rightarrow> (Inl (Raised e), log @ [Sent r])
      | Inr v \<Rightarrow> (Inr v, log @ [Sent r]))"

text \<open>\<^verbatim>\<open>for x in xs: f(x)\<close>, the value of each call dropped.\<close>

fun for_each :: "('a \<Rightarrow> 'b io) \<Rightarrow> 'a list \<Rightarrow> unit io" where
  "for_each f [] = return_io ()"
| "for_each f (x # xs) = bind_io (f x) (\<lambda>_. for_each f xs)"

section \<open>Configuration\<close>

definition DAYS_BEFORE_SOFT_DELETE :: int where
  "DAYS_BEFORE_SOFT_DELETE = 90"

definition DAYS_BEFORE_HARD_DELETE :: int where
  "DAYS_BEFORE_HARD_DELETE = 90"

definition NOTIFICATION_EMAIL_ADDRESS :: string where
  "NOTIFICATION_EMAIL_ADDRESS = ''email@address.com''"

section \<open>Query Builder and Query Runner\<close>

definition unused_content_query :: "int \<Rightarrow> write_query" where
  "unused_content_query days =
     \<lparr> model = ''system__activity'',
       view = ''content_usage'',
       query_fields = [''dashboard.id'', ''look.id'', ''content_usage.content_title'',
                 ''content_usage.content_type'', ''content_usage.last_accessed_date''],
       dynamic_fields = None,
       pivots = None,
       fill_fields = None,
       filters = [(''content_usage.days_since_last_accessed'', ''>'' @ str_int days),
                  (''content_usage.content_type'', ''dashboard,look''),
                  (''_dashboard_linked_looks.is_used_on_dashboard'', ''No''),
                  (''look.public'', ''No'')],
       filter_expression =
         ''if(is_null(${dashboard.deleted_date}) = no OR is_null(${look.deleted_date}) = no,no,yes)'',
       sorts = [''content_usage.last_accessed_date''],
       limit = ''50000'' \<rparr>"

definition get_unused_content_query_id :: "env \<Rightarrow> int \<Rightarrow> string io" where
  "get_unused_content_query_id sdk days =
     sdk_call (Create_query (unused_content_query days))
       (\<lambda>h. create_query sdk h (unused_content_query days))"

definition get_unused_content :: "env \<Rightarrow> string \<Rightarrow> row list io" where
  "get_unused_content sdk query_id =
     bind_io (sdk_call (Run_query query_id ''json'' True)
               (\<lambda>h. run_query sdk h query_id ''json'' True))
       (\<lambda>payload. lift_io (case json_loads sdk payload of
                              Inl e \<Rightarrow> Inl (Raised e)
                            | Inr unused_content \<Rightarrow> Inr unused_content))"

definition deleted_query :: "int \<Rightarrow> write_query" where
  \<open>deleted_query days =
     \<lparr> model = ''system__activity'',
       view = ''content_usage'',
       query_fields = [''dashboard.id'', ''look.id'', ''content_usage.content_title'',
                 ''content_usage.content_type'', ''content_usage.last_accessed_date'',
                 ''dashboard.deleted_date'', ''look.deleted_date''],
       dynamic_fields = Some (
         ''[{"category":"dimension",''
         @ ''            "expression":"diff_days(coalesce(${dashboard.deleted_date},${look.deleted_date}), now())",''
         @ ''            "label":"Days Since Moved to Trash",''
         @ ''            "value_format":null,''
         @ ''            "value_format_name":null,''
         @ ''            "dimension":"days_since_moved_to_trash",''
         @ ''            "_kind_hint":"dimension",''
         @ ''            "_type_hint":"number"}]''),
       pivots = None,
       fill_fields = None,
       filters = [(''content_usage.content_type'', ''dashboard,look''),
                  (''days_since_moved_to_trash'', ''>'' @ str_int days)],
       filter_expression =
         ''if(is_null(${dashboard.deleted_date}) = no OR is_null(${look.deleted_date}) = no,yes,no)'',
       sorts = [''content_usage.last_accessed_date''],
       limit = ''50000'' \<rparr>\<close>

definition get_deleted_content_query_id :: "env \<Rightarrow> int \<Rightarrow> string io" where
  "get_deleted_content_query_id sdk days =
     sdk_call (Create_query (deleted_query days))
       (\<lambda>h. create_query sdk h (deleted_query days))"

definition get_deleted_content :: "env \<Rightarrow> string \<Rightarrow> row list io" where
  "get_deleted_content sdk query_id =
     bind_io (sdk_call (Run_query query_id ''json'' True)
               (\<lambda>h. run_query sdk h query_id ''json'' True))
       (\<lambda>payload. lift_io (case json_loads sdk payload of
                              Inl e \<Rightarrow> Inl (Raised e)
                            | Inr unused_content \<Rightarrow> Inr unused_content))"

section \<open>Notifier\<close>

text \<open>
  \<^verbatim>\<open>str.capitalize\<close> on ASCII text: the first character in upper case, the others in lower
  case; a character that is not an ASCII letter is kept.
\<close>

definition upper_char :: "char \<Rightarrow> char" where
  "upper_char c =
     (let n = of_char c :: nat in if 97 \<le> n \<and> n \<le> 122 then char_of (n - 32) else c)"

definition lower_char :: "char \<Rightarrow> char" where
  "lower_char c =
     (let n = of_char c :: nat in if 65 \<le> n \<and> n \<le> 90 then char_of (n + 32) else c)"

fun capitalize :: "string \<Rightarrow> string" where
  "capitalize [] = []"
| "capitalize (c # cs) = upper_char c # map lower_char cs"

text \<open>What \<^verbatim>\<open>send_content_notification\<close> returns: the plan of the remote, or a string.\<close>

datatype notification = Plan scheduled_plan | Text string

text \<open>The two request bodies \<^verbatim>\<open>send_content_notification\<close> builds before its \<^verbatim>\<open>try\<close>.\<close>

definition scheduled_plan_destination_body :: "string \<Rightarrow> string \<Rightarrow> string \<Rightarrow> scheduled_plan_destination" where
  "scheduled_plan_destination_body delete_type address date_today =
     \<lparr> dest_format = ''csv'',
       dest_type = ''email'',
       dest_address = address,
       dest_message = ''List of dashboards and Looks that were '' @ delete_type
         @ '' deleted on '' @ date_today @ ''.''
         @ ''        Note, LookML dashboards are unaffected by this automation, the dashboard lkml file has to be deleted from its LookML project.'',
       dest_apply_formatting = False,
       dest_apply_vis = False \<rparr>"

definition unused_content_notification :: "string \<Rightarrow> string \<Rightarrow> string \<Rightarrow> string \<Rightarrow> write_scheduled_plan" where
  "unused_content_notification query_id delete_type address date_today =
     \<lparr> plan_name = ''[Looker Automation] '' @ capitalize delete_type
         @ '' deleted content ('' @ date_today @ '').'',
       plan_query_id = query_id,
       plan_scheduled_plan_destination =
         [scheduled_plan_destination_body delete_type address date_today] \<rparr>"

definition send_content_notification :: "env \<Rightarrow> string \<Rightarrow> string \<Rightarrow> string \<Rightarrow> notification io" where
  "send_content_notification sdk query_id delete_type address log =
     (let date_today = today sdk (sent log);
          body = unused_content_notification query_id delete_type address date_today;
          log' = log @ [Sent (Scheduled_plan_run_once body)]
      in case scheduled_plan_run_once sdk (sent log) body of
           Inr send_notification \<Rightarrow> (Inr (Plan send_notification), log')
         | Inl e \<Rightarrow>
             (Inr (Text (''Error sending '' @ delete_type @ '' delete email notification (''
                         @ date_today @ ''): '' @ e)), log'))"

section \<open>Mutator\<close>

text \<open>
  Each operation logs its entry. In the two soft deletes the \<^verbatim>\<open>try\<close> block holds the SDK call
  and the handler \<^verbatim>\<open>except Exception as e\<close> turns an exception into the returned string.
\<close>

definition soft_delete_dashboard :: "env \<Rightarrow> pyval \<Rightarrow> string io" where
  "soft_delete_dashboard sdk dashboard_id log =
     (let log1 = log @ [Entered SoftDeleteDashboard dashboard_id];
          dashboard = WriteDashboard False;
          log2 = log1 @ [Sent (Update_dashboard (py_str dashboard_id) dashboard)]
      in case update_dashboard sdk (sent log1) (py_str dashboard_id) dashboard of
           Inr _ \<Rightarrow> (Inr (''Successfully soft deleted dashboard: '' @ py_str dashboard_id), log2)
         | Inl e \<Rightarrow>
             (Inr (''Error with soft deleting dashboard ('' @ py_str dashboard_id @ ''): '' @ e),
              log2))"

definition soft_delete_look :: "env \<Rightarrow> pyval \<Rightarrow> string io" where
  "soft_delete_look sdk look_id log =
     (let log1 = log @ [Entered SoftDeleteLook look_id];
          look = WriteLookWithQuery False;
          log2 = log1 @ [Sent (Update_look (py_str look_id) look)]
      in case update_look sdk (sent log1) (py_str look_id) look of
           Inr _ \<Rightarrow> (Inr (''Successfully soft deleted Look: '' @ py_str look_id), log2)
         | Inl e \<Rightarrow>
             (Inr (''Error with soft deleting Look ('' @ py_str look_id @ ''): '' @ e), log2))"

text \<open>
  In the two hard deletes the SDK call is commented out: the \<^verbatim>\<open>try\<close> block is the
  \<^verbatim>\<open>return\<close> alone, and nothing in it can reach the handler.
\<close>

definition hard_delete_dashboard :: "env \<Rightarrow> pyval \<Rightarrow> string io" where
  "hard_delete_dashboard sdk dashboard_id log =
     (Inr (''Successfully permanently deleted dashboard: '' @ py_str dashboard_id),
      log @ [Entered HardDeleteDashboard dashboard_id])"

definition hard_delete_look :: "env \<Rightarrow> pyval \<Rightarrow> string io" where
  "hard_delete_look sdk look_id log =
     (Inr (''Successfully permanently deleted Look: '' @ py_str look_id),
      log @ [Entered HardDeleteLook look_id])"

section \<open>Entry point\<close>

definition main :: "env \<Rightarrow> 'r \<Rightarrow> string io" where
  "main sdk request =
     bind_io (get_unused_content_query_id sdk DAYS_BEFORE_SOFT_DELETE) (\<lambda>unused_content_query_id.
     bind_io (get_unused_content sdk unused_content_query_id) (\<lambda>unused_content.
     bind_io (lift_io (get_dashboard_ids unused_content)) (\<lambda>unused_dashboard_ids.
     bind_io (lift_io (get_look_ids unused_content)) (\<lambda>unused_look_ids.
     bind_io (for_each (soft_delete_dashboard sdk) unused_dashboard_ids) (\<lambda>_.
     bind_io (for_each (soft_delete_look sdk) unused_look_ids) (\<lambda>_.
     bind_io (send_content_notification sdk unused_content_query_id ''soft''
                NOTIFICATION_EMAIL_ADDRESS) (\<lambda>_.
     bind_io (get_deleted_content_query_id sdk DAYS_BEFORE_HARD_DELETE) (\<lambda>deleted_content_query_id.
     bind_io (get_deleted_content sdk deleted_content_query_id) (\<lambda>deleted_content.
     bind_io (lift_io (get_dashboard_ids deleted_content)) (\<lambda>deleted_dashboard_ids.
     bind_io (lift_io (get_look_ids deleted_content)) (\<lambda>deleted_look_ids.
     bind_io (for_each (hard_delete_dashboard sdk) deleted_dashboard_ids) (\<lambda>_.
     bind_io (for_each (hard_delete_look sdk) deleted_look_ids) (\<lambda>_.
     bind_io (send_content_notification sdk deleted_content_query_id ''hard''
                NOTIFICATION_EMAIL_ADDRESS) (\<lambda>_.
     return_io ''Successfully ran soft delete and hard delete content automation.''))))))))))))))"

section \<open>The remote's reading of a numeric filter\<close>

text \<open>
  Modelled from the spec: the query engine that evaluates a filter is the remote platform, not
  code of this repository. The specification reads the filter \<^verbatim>\<open>>N\<close> on the days since last
  access as ``more than \<open>N\<close> days'': a row at \<open>x\<close> days passes when \<open>N < x\<close>, with \<open>N\<close> the decimal
  number after the sign.
\<close>

definition digit_val :: "char \<Rightarrow> nat option" where
  "digit_val c =
     (let n = of_char c :: nat in if 48 \<le> n \<and> n \<le> 57 then Some (n - 48) else None)"

fun nat_of_digits :: "nat \<Rightarrow> string \<Rightarrow> nat option" where
  "nat_of_digits acc [] = Some acc"
| "nat_of_digits acc (c # cs) =
     (case digit_val c of None \<Rightarrow> None | Some d \<Rightarrow> nat_of_digits (10 * acc + d) cs)"

definition parse_nat :: "string \<Rightarrow> nat option" where
  "parse_nat s = (if s = [] then None else nat_of_digits 0 s)"

definition parse_int :: "string \<Rightarrow> int option" where
  "parse_int s =
     (case s of
        [] \<Rightarrow> None
      | c # cs \<Rightarrow>
          if c = CHR ''-'' then map_option (\<lambda>n. - int n) (parse_nat cs)
          else map_option int (parse_nat s))"

definition days_filter_accepts :: "string \<Rightarrow> int \<Rightarrow> bool" where
  "days_filter_accepts f x =
     (case f of
        [] \<Rightarrow> False
      | c # ds \<Rightarrow>
          if c = CHR ''>'' then (case parse_int ds of None \<Rightarrow> False | Some n \<Rightarrow> n < x)
          else False)"

section \<open>Example inputs\<close>

text \<open>
  A query result with a dashboard, a look, a dashboard-typed row and a look-typed row whose id
  is null, and the first dashboard a second time.
\<close>

definition example_rows :: "row list" where
  "example_rows =
     [ [''content_usage.content_type'' \<mapsto> PyStr ''dashboard'', ''dashboard.id'' \<mapsto> PyStr ''1'',
        ''look.id'' \<mapsto> PyNone],
       [''content_usage.content_type'' \<mapsto> PyStr ''look'', ''dashboard.id'' \<mapsto> PyNone,
        ''look.id'' \<mapsto> PyStr ''9''],
       [''content_usage.content_type'' \<mapsto> PyStr ''dashboard'', ''dashboard.id'' \<mapsto> PyNone,
        ''look.id'' \<mapsto> PyNone],
       [''content_usage.content_type'' \<mapsto> PyStr ''look'', ''dashboard.id'' \<mapsto> PyNone,
        ''look.id'' \<mapsto> PyNone],
       [''content_usage.content_type'' \<mapsto> PyStr ''dashboard'', ''dashboard.id'' \<mapsto> PyStr ''1'',
        ''look.id'' \<mapsto> PyNone] ]"

text \<open>Rows with keys missing: a dashboard without its id, and a row without a content type.\<close>

definition keyless_rows :: "row list" where
  "keyless_rows =
     [ [''content_usage.content_type'' \<mapsto> PyStr ''look'', ''look.id'' \<mapsto> PyStr ''9''],
       [''content_usage.content_type'' \<mapsto> PyStr ''dashboard''],
       [''content_usage.content_type'' \<mapsto> PyStr ''dashboard'', ''dashboard.id'' \<mapsto> PyStr ''1''],
       [''dashboard.id'' \<mapsto> PyStr ''2''] ]"

text \<open>
  A remote that creates and runs queries, answering each run with a payload that decodes to
  \<open>example_rows\<close>, and that refuses every update and every scheduled plan.
\<close>

definition failing_remote :: env where
  "failing_remote =
     \<lparr> create_query = (\<lambda>h q. Inr ''7''),
       run_query = (\<lambda>h q f c. Inr ''payload''),
       update_dashboard = (\<lambda>h i b. Inl ''404 Not found''),
       update_look = (\<lambda>h i b. Inl ''404 Not found''),
       scheduled_plan_run_once = (\<lambda>h p. Inl ''422 Validation failed''),
       json_loads = (\<lambda>s. if s = ''payload'' then Inr example_rows
                           else Inl ''Expecting value: line 1 column 1 (char 0)''),
       today = (\<lambda>h. ''2023-03-01'') \<rparr>"

section \<open>The log\<close>

lemma sent_append [simp]: "sent (xs @ ys) = sent xs @ sent ys"
  by (induction xs rule: sent.induct) simp_all

lemma calls_append [simp]: "calls (xs @ ys) = calls xs @ calls ys"
  by (induction xs rule: calls.induct) simp_all

section \<open>Properties of the Content Selector\<close>

lemma get_dashboard_ids_Inl:
  "get_dashboard_ids rows = Inl e \<Longrightarrow>
   e = KeyError ''content_usage.content_type'' \<or> e = KeyError ''dashboard.id''"
  by (induction rows) (auto simp: subscript_def split: option.splits sum.splits if_splits)

lemma get_dashboard_ids_Inr:
  "get_dashboard_ids rows = Inr ids \<Longrightarrow> r \<in> set rows \<Longrightarrow> dashboard_keys r"
  by (induction rows arbitrary: ids)
     (auto simp: subscript_def dashboard_keys_def split: option.splits sum.splits if_splits)

lemma get_look_ids_Inl:
  "get_look_ids rows = Inl e \<Longrightarrow>
   e = KeyError ''content_usage.content_type'' \<or> e = KeyError ''look.id''"
  by (induction rows) (auto simp: subscript_def split: option.splits sum.splits if_splits)

lemma get_look_ids_Inr:
  "get_look_ids rows = Inr ids \<Longrightarrow> r \<in> set rows \<Longrightarrow> look_keys r"
  by (induction rows arbitrary: ids)
     (auto simp: subscript_def look_keys_def split: option.splits sum.splits if_splits)

text \<open>
  C4. On rows that carry the keys it reads, \<open>get_dashboard_ids\<close> returns the dashboard ids of
  exactly the rows whose content type is \<open>dashboard\<close> and whose dashboard id is not null: a
  map over a filter of the rows, so in row order and with every duplicate kept.
\<close>

theorem get_dashboard_ids_is_dashboardIds:
  "\<forall>r \<in> set rows. dashboard_keys r \<Longrightarrow> get_dashboard_ids rows = Inr (dashboardIds rows)"
  by (induction rows)
     (auto simp: dashboardIds_def dashboard_keys_def subscript_def split: option.splits)

theorem get_dashboard_ids_is_dashboardIds_witness:
  "list_all dashboard_keys example_rows
   \<and> get_dashboard_ids example_rows = Inr [PyStr ''1'', PyStr ''1'']"
proof -
  have keys: "\<forall>r \<in> set example_rows. dashboard_keys r"
    by (simp add: example_rows_def dashboard_keys_def)
  have "dashboardIds example_rows = [PyStr ''1'', PyStr ''1'']"
    by (simp add: example_rows_def dashboardIds_def)
  with get_dashboard_ids_is_dashboardIds [OF keys] keys show ?thesis
    by (simp add: list_all_iff)
qed

text \<open>
  C5. On rows that carry the keys it reads, \<open>get_look_ids\<close> returns the look id of every row
  whose content type is \<open>look\<close>, with no test against null: a look-typed row whose look id is
  null contributes that null to the result.
\<close>

theorem get_look_ids_is_lookIds:
  "\<forall>r \<in> set rows. look_keys r \<Longrightarrow>
   get_look_ids rows = Inr (lookIds rows)
   \<and> (\<forall>r \<in> set rows. r ''content_usage.content_type'' = Some (PyStr ''look'')
          \<and> r ''look.id'' = Some PyNone \<longrightarrow> PyNone \<in> set (lookIds rows))"
proof
  assume "\<forall>r \<in> set rows. look_keys r"
  then show "get_look_ids rows = Inr (lookIds rows)"
    by (induction rows)
       (auto simp: lookIds_def look_keys_def subscript_def split: option.splits)
next
  show "\<forall>r \<in> set rows. r ''content_usage.content_type'' = Some (PyStr ''look'')
          \<and> r ''look.id'' = Some PyNone \<longrightarrow> PyNone \<in> set (lookIds rows)"
    by (force simp: lookIds_def)
qed

theorem get_look_ids_is_lookIds_witness:
  "list_all look_keys example_rows
   \<and> get_look_ids example_rows = Inr [PyStr ''9'', PyNone]
   \<and> PyNone \<in> set (lookIds example_rows)"
proof -
  have keys: "\<forall>r \<in> set example_rows. look_keys r"
    by (simp add: example_rows_def look_keys_def)
  have "lookIds example_rows = [PyStr ''9'', PyNone]"
    by (simp add: example_rows_def lookIds_def)
  with get_look_ids_is_lookIds [OF keys] keys show ?thesis
    by (simp add: list_all_iff)
qed

text \<open>
  C10. When some row of the input lacks the content-type key, or is of the selector's own type
  and lacks the id key of that type, the selector raises \<^verbatim>\<open>KeyError\<close> on one of these keys
  instead of skipping the row.
\<close>

theorem selectors_raise_KeyError:
  "((\<exists>r \<in> set rows. \<not> dashboard_keys r) \<longrightarrow>
      get_dashboard_ids rows = Inl (KeyError ''content_usage.content_type'')
      \<or> get_dashboard_ids rows = Inl (KeyError ''dashboard.id''))
   \<and> ((\<exists>r \<in> set rows. \<not> look_keys r) \<longrightarrow>
      get_look_ids rows = Inl (KeyError ''content_usage.content_type'')
      \<or> get_look_ids rows = Inl (KeyError ''look.id''))"
proof (intro conjI impI)
  assume "\<exists>r \<in> set rows. \<not> dashboard_keys r"
  then show "get_dashboard_ids rows = Inl (KeyError ''content_usage.content_type'')
      \<or> get_dashboard_ids rows = Inl (KeyError ''dashboard.id'')"
    by (cases "get_dashboard_ids rows")
       (use get_dashboard_ids_Inl get_dashboard_ids_Inr in blast)+
next
  assume "\<exists>r \<in> set rows. \<not> look_keys r"
  then show "get_look_ids rows = Inl (KeyError ''content_usage.content_type'')
      \<or> get_look_ids rows = Inl (KeyError ''look.id'')"
    by (cases "get_look_ids rows") (use get_look_ids_Inl get_look_ids_Inr in blast)+
qed

theorem selectors_raise_KeyError_witness:
  "(\<exists>r \<in> set keyless_rows. \<not> dashboard_keys r)
   \<and> get_dashboard_ids keyless_rows = Inl (KeyError ''dashboard.id'')
   \<and> (\<exists>r \<in> set keyless_rows. \<not> look_keys r)
   \<and> get_look_ids keyless_rows = Inl (KeyError ''content_usage.content_type'')"
proof -
  have d: "\<exists>r \<in> set keyless_rows. \<not> dashboard_keys r"
    by (simp add: keyless_rows_def dashboard_keys_def)
  have l: "\<exists>r \<in> set keyless_rows. \<not> look_keys r"
    by (simp add: keyless_rows_def look_keys_def)
  have "get_dashboard_ids keyless_rows \<noteq> Inl (KeyError ''content_usage.content_type'')"
    by (simp add: keyless_rows_def subscript_def)
  moreover have "get_look_ids keyless_rows \<noteq> Inl (KeyError ''look.id'')"
    by (simp add: keyless_rows_def subscript_def)
  ultimately show ?thesis
    using selectors_raise_KeyError [of keyless_rows] d l by blast
qed

section \<open>Properties of the Mutator\<close>

lemma for_each_soft_delete_dashboard:
  "for_each (soft_delete_dashboard sdk) ids log =
     (Inr (), log @ concat (map (\<lambda>i. [Entered SoftDeleteDashboard i,
                                      Sent (Update_dashboard (py_str i) (WriteDashboard False))]) ids))"
  by (induction ids arbitrary: log)
     (simp_all add: return_io_def bind_io_def soft_delete_dashboard_def Let_def split: sum.splits)

lemma for_each_soft_delete_look:
  "for_each (soft_delete_look sdk) ids log =
     (Inr (), log @ concat (map (\<lambda>i. [Entered SoftDeleteLook i,
                                      Sent (Update_look (py_str i) (WriteLookWithQuery False))]) ids))"
  by (induction ids arbitrary: log)
     (simp_all add: return_io_def bind_io_def soft_delete_look_def Let_def split: sum.splits)

lemma for_each_hard_delete_dashboard:
  "for_each (hard_delete_dashboard sdk) ids log =
     (Inr (), log @ map (Entered HardDeleteDashboard) ids)"
  by (induction ids arbitrary: log)
     (simp_all add: return_io_def bind_io_def hard_delete_dashboard_def)

lemma for_each_hard_delete_look:
  "for_each (hard_delete_look sdk) ids log =
     (Inr (), log @ map (Entered HardDeleteLook) ids)"
  by (induction ids arbitrary: log)
     (simp_all add: return_io_def bind_io_def hard_delete_look_def)

lemma calls_soft_dashboard:
  "calls (concat (map (\<lambda>i. [Entered SoftDeleteDashboard i, Sent (Update_dashboard (f i) b)]) ids))
     = map (Pair SoftDeleteDashboard) ids"
  by (induction ids) simp_all

lemma calls_soft_look:
  "calls (concat (map (\<lambda>i. [Entered SoftDeleteLook i, Sent (Update_look (f i) b)]) ids))
     = map (Pair SoftDeleteLook) ids"
  by (induction ids) simp_all

lemma calls_Entered: "calls (map (Entered f) ids) = map (Pair f) ids"
  by (induction ids) simp_all

lemma sent_soft_dashboard:
  "sent (concat (map (\<lambda>i. [Entered SoftDeleteDashboard i, Sent (Update_dashboard (f i) b)]) ids))
     = map (\<lambda>i. Update_dashboard (f i) b) ids"
  by (induction ids) simp_all

lemma sent_soft_look:
  "sent (concat (map (\<lambda>i. [Entered SoftDeleteLook i, Sent (Update_look (f i) b)]) ids))
     = map (\<lambda>i. Update_look (f i) b) ids"
  by (induction ids) simp_all

lemma sent_Entered: "sent (map (Entered f) ids) = []"
  by (induction ids) simp_all


text \<open>
  C1. For every identifier, \<open>soft_delete_dashboard\<close> and \<open>soft_delete_look\<close> send exactly one
  request, the update of that identifier with the deleted flag \<open>False\<close>, whatever the remote
  answers.
\<close>

theorem soft_delete_sends_deleted_False:
  "snd (soft_delete_dashboard sdk dashboard_id log) =
     log @ [Entered SoftDeleteDashboard dashboard_id,
            Sent (Update_dashboard (py_str dashboard_id) (WriteDashboard False))]
   \<and> snd (soft_delete_look sdk look_id log) =
     log @ [Entered SoftDeleteLook look_id,
            Sent (Update_look (py_str look_id) (WriteLookWithQuery False))]"
  by (simp add: soft_delete_dashboard_def soft_delete_look_def Let_def split: sum.splits)

text \<open>
  C2. For every identifier, \<open>hard_delete_dashboard\<close> and \<open>hard_delete_look\<close> send no request
  to the remote, and return the success string ending in the identifier.
\<close>

theorem hard_delete_sends_nothing:
  "hard_delete_dashboard sdk dashboard_id log =
     (Inr (''Successfully permanently deleted dashboard: '' @ py_str dashboard_id),
      log @ [Entered HardDeleteDashboard dashboard_id])
   \<and> sent (snd (hard_delete_dashboard sdk dashboard_id log)) = sent log
   \<and> hard_delete_look sdk look_id log =
     (Inr (''Successfully permanently deleted Look: '' @ py_str look_id),
      log @ [Entered HardDeleteLook look_id])
   \<and> sent (snd (hard_delete_look sdk look_id log)) = sent log"
  by (simp add: hard_delete_dashboard_def hard_delete_look_def)

text \<open>
  C3. Each of the four mutation operations returns an outcome string and never raises: the
  success string, or for a soft delete whose remote call raised, the error string ending in
  the cause. A loop over a batch therefore reaches every identifier, in order, whatever the
  remote answers to each request.
\<close>

theorem mutations_never_raise:
  "fst (soft_delete_dashboard sdk i log) =
     Inr (case update_dashboard sdk (sent log) (py_str i) (WriteDashboard False) of
            Inr _ \<Rightarrow> ''Successfully soft deleted dashboard: '' @ py_str i
          | Inl e \<Rightarrow> ''Error with soft deleting dashboard ('' @ py_str i @ ''): '' @ e)
   \<and> fst (soft_delete_look sdk i log) =
     Inr (case update_look sdk (sent log) (py_str i) (WriteLookWithQuery False) of
            Inr _ \<Rightarrow> ''Successfully soft deleted Look: '' @ py_str i
          | Inl e \<Rightarrow> ''Error with soft deleting Look ('' @ py_str i @ ''): '' @ e)
   \<and> fst (hard_delete_dashboard sdk i log)
        = Inr (''Successfully permanently deleted dashboard: '' @ py_str i)
   \<and> fst (hard_delete_look sdk i log) = Inr (''Successfully permanently deleted Look: '' @ py_str i)
   \<and> fst (for_each (soft_delete_dashboard sdk) ids log) = Inr ()
   \<and> calls (snd (for_each (soft_delete_dashboard sdk) ids log))
        = calls log @ map (Pair SoftDeleteDashboard) ids
   \<and> sent (snd (for_each (soft_delete_dashboard sdk) ids log))
        = sent log @ map (\<lambda>i. Update_dashboard (py_str i) (WriteDashboard False)) ids
   \<and> fst (for_each (soft_delete_look sdk) ids log) = Inr ()
   \<and> calls (snd (for_each (soft_delete_look sdk) ids log))
        = calls log @ map (Pair SoftDeleteLook) ids
   \<and> sent (snd (for_each (soft_delete_look sdk) ids log))
        = sent log @ map (\<lambda>i. Update_look (py_str i) (WriteLookWithQuery False)) ids
   \<and> fst (for_each (hard_delete_dashboard sdk) ids log) = Inr ()
   \<and> calls (snd (for_each (hard_delete_dashboard sdk) ids log))
        = calls log @ map (Pair HardDeleteDashboard) ids
   \<and> fst (for_each (hard_delete_look sdk) ids log) = Inr ()
   \<and> calls (snd (for_each (hard_delete_look sdk) ids log))
        = calls log @ map (Pair HardDeleteLook) ids"
proof (intro conjI)
  show "fst (soft_delete_dashboard sdk i log) =
     Inr (case update_dashboard sdk (sent log) (py_str i) (WriteDashboard False) of
            Inr _ \<Rightarrow> ''Successfully soft deleted dashboard: '' @ py_str i
          | Inl e \<Rightarrow> ''Error with soft deleting dashboard ('' @ py_str i @ ''): '' @ e)"
    by (simp add: soft_delete_dashboard_def Let_def split: sum.splits)
  show "fst (soft_delete_look sdk i log) =
     Inr (case update_look sdk (sent log) (py_str i) (WriteLookWithQuery False) of
            Inr _ \<Rightarrow> ''Successfully soft deleted Look: '' @ py_str i
          | Inl e \<Rightarrow> ''Error with soft deleting Look ('' @ py_str i @ ''): '' @ e)"
    by (simp add: soft_delete_look_def Let_def split: sum.splits)
qed (simp_all add: hard_delete_dashboard_def hard_delete_look_def
       for_each_soft_delete_dashboard for_each_soft_delete_look
       for_each_hard_delete_dashboard for_each_hard_delete_look
       calls_soft_dashboard calls_soft_look calls_Entered
       sent_soft_dashboard sent_soft_look)

section \<open>Properties of the Query Builder\<close>

lemma digit_val_digit_char: "d < 10 \<Longrightarrow> digit_val (digit_char d) = Some d"
  by (simp add: digit_val_def digit_char_def)

lemma digit_char_not_minus: "d < 10 \<Longrightarrow> digit_char d \<noteq> CHR ''-''"
proof
  assume "d < 10" and "digit_char d = CHR ''-''"
  then have "of_char (digit_char d) = (of_char (CHR ''-'') :: nat)" by simp
  with \<open>d < 10\<close> show False by (simp add: digit_char_def)
qed

lemma nat_of_digits_snoc:
  "nat_of_digits acc (cs @ [c]) =
     (case nat_of_digits acc cs of
        None \<Rightarrow> None
      | Some m \<Rightarrow> (case digit_val c of None \<Rightarrow> None | Some d \<Rightarrow> Some (10 * m + d)))"
  by (induction cs arbitrary: acc) (auto split: option.splits)

lemma nat_of_digits_str_nat: "nat_of_digits 0 (str_nat n) = Some n"
proof (induction n rule: str_nat.induct)
  case (1 n)
  show ?case
  proof (cases "n < 10")
    case True
    then show ?thesis
      by (subst str_nat.simps) (simp add: digit_val_digit_char)
  next
    case False
    with "1" have "nat_of_digits 0 (str_nat (n div 10)) = Some (n div 10)" by simp
    with False show ?thesis
      by (subst str_nat.simps) (simp add: nat_of_digits_snoc digit_val_digit_char)
  qed
qed

lemma str_nat_not_Nil: "str_nat n \<noteq> []"
  by (subst str_nat.simps) simp

lemma hd_str_nat: "hd (str_nat n) \<noteq> CHR ''-''"
proof (induction n rule: str_nat.induct)
  case (1 n)
  show ?case
  proof (cases "n < 10")
    case True
    then show ?thesis by (subst str_nat.simps) (simp add: digit_char_not_minus)
  next
    case False
    with "1" have "hd (str_nat (n div 10)) \<noteq> CHR ''-''" by simp
    with False show ?thesis
      by (subst str_nat.simps) (simp add: str_nat_not_Nil)
  qed
qed

lemma parse_nat_str_nat: "parse_nat (str_nat n) = Some n"
  by (simp add: parse_nat_def str_nat_not_Nil nat_of_digits_str_nat)

text \<open>Reading back the decimal rendering of an integer gives the integer.\<close>

lemma parse_int_str_int: "parse_int (str_int i) = Some i"
proof (cases "i < 0")
  case True
  then show ?thesis by (simp add: parse_int_def str_int_def parse_nat_str_nat)
next
  case False
  obtain c cs where s: "str_nat (nat i) = c # cs"
    using str_nat_not_Nil [of "nat i"] by (cases "str_nat (nat i)") auto
  with hd_str_nat [of "nat i"] have "c \<noteq> CHR ''-''" by simp
  with False s parse_nat_str_nat [of "nat i"] show ?thesis
    by (simp add: parse_int_def str_int_def)
qed

text \<open>
  C6. For every threshold \<open>days\<close>, the query that \<open>get_unused_content_query_id\<close> sends has the
  filter on \<^verbatim>\<open>content_usage.days_since_last_accessed\<close> set to the string \<^verbatim>\<open>>\<close> followed by the
  decimal rendering of \<open>days\<close>; read as a filter, it rejects a row at \<open>days\<close> days and accepts one
  at \<open>days + 1\<close>.
\<close>

theorem unused_content_filter_is_greater_than:
  "snd (get_unused_content_query_id sdk days log)
     = log @ [Sent (Create_query (unused_content_query days))]
   \<and> map_of (filters (unused_content_query days)) ''content_usage.days_since_last_accessed''
       = Some (''>'' @ str_int days)
   \<and> \<not> days_filter_accepts (''>'' @ str_int days) days
   \<and> days_filter_accepts (''>'' @ str_int days) (days + 1)"
  by (simp add: get_unused_content_query_id_def sdk_call_def unused_content_query_def
        days_filter_accepts_def parse_int_str_int split: sum.splits)

section \<open>Properties of the Notifier\<close>

lemma send_content_notification_log:
  "send_content_notification sdk q k a log = (r, l) \<Longrightarrow>
   l = log @ [Sent (Scheduled_plan_run_once (unused_content_notification q k a (today sdk (sent log))))]"
  by (auto simp: send_content_notification_def Let_def split: sum.splits)

lemma bind_send_content_notification:
  "bind_io (send_content_notification sdk q k a) (\<lambda>_. K) =
     (\<lambda>log. K (log @ [Sent (Scheduled_plan_run_once
                         (unused_content_notification q k a (today sdk (sent log))))]))"
  by (rule ext) (simp add: bind_io_def send_content_notification_def Let_def split: sum.splits)

text \<open>
  C7. \<open>send_content_notification\<close> never raises. When the remote raises on the scheduled plan,
  the function returns the string \<^verbatim>\<open>Error sending <kind> delete email notification\<close> followed by
  the date and the cause; and whatever the remote answers, the statements after the call run,
  on the log extended by the one request.
\<close>

theorem notification_failure_is_returned:
  "(\<exists>r. fst (send_content_notification sdk query_id delete_type address log) = Inr r)
   \<and> (scheduled_plan_run_once sdk (sent log)
         (unused_content_notification query_id delete_type address (today sdk (sent log))) = Inl e
      \<longrightarrow> fst (send_content_notification sdk query_id delete_type address log) =
            Inr (Text (''Error sending '' @ delete_type @ '' delete email notification (''
                       @ today sdk (sent log) @ ''): '' @ e)))
   \<and> bind_io (send_content_notification sdk query_id delete_type address) (\<lambda>_. K) log =
       K (log @ [Sent (Scheduled_plan_run_once
                  (unused_content_notification query_id delete_type address
                     (today sdk (sent log))))])"
  by (simp add: bind_io_def send_content_notification_def Let_def split: sum.splits)

theorem notification_failure_is_returned_witness:
  "scheduled_plan_run_once failing_remote (sent [])
     (unused_content_notification ''7'' ''soft'' ''email@address.com''
        (today failing_remote (sent []))) = Inl ''422 Validation failed''
   \<and> fst (send_content_notification failing_remote ''7'' ''soft'' ''email@address.com'' []) =
       Inr (Text ''Error sending soft delete email notification (2023-03-01): 422 Validation failed'')"
proof -
  have raised: "scheduled_plan_run_once failing_remote (sent [])
     (unused_content_notification ''7'' ''soft'' ''email@address.com''
        (today failing_remote (sent []))) = Inl ''422 Validation failed''"
    by (simp add: failing_remote_def)
  with notification_failure_is_returned
         [of failing_remote "''7''" "''soft''" "''email@address.com''" "[]" "''422 Validation failed''"]
  have "fst (send_content_notification failing_remote ''7'' ''soft'' ''email@address.com'' []) =
          Inr (Text (''Error sending '' @ ''soft'' @ '' delete email notification (''
                     @ today failing_remote (sent []) @ ''): '' @ ''422 Validation failed''))"
    by blast
  with raised show ?thesis
    by (simp add: failing_remote_def)
qed

section \<open>Properties of the entry point\<close>

lemma bind_io_InrE:
  assumes "bind_io m f log = (Inr v, log')"
  obtains x l where "m log = (Inr x, l)" and "f x l = (Inr v, log')"
  using assms by (auto simp: bind_io_def split: prod.splits sum.splits)

lemma sdk_call_Inr:
  "sdk_call r answer log = (Inr v, l) \<Longrightarrow> answer (sent log) = Inr v \<and> l = log @ [Sent r]"
  by (auto simp: sdk_call_def split: sum.splits)

lemma lift_io_Inr: "lift_io r log = (Inr v, l) \<Longrightarrow> r = Inr v \<and> l = log"
  by (simp add: lift_io_def)

lemma get_unused_content_Inr:
  assumes "get_unused_content sdk q log = (Inr rows, l)"
  shows "\<exists>p. run_query sdk (sent log) q ''json'' True = Inr p \<and> json_loads sdk p = Inr rows
             \<and> l = log @ [Sent (Run_query q ''json'' True)]"
proof -
  from assms obtain p l' where
    call: "sdk_call (Run_query q ''json'' True) (\<lambda>h. run_query sdk h q ''json'' True) log = (Inr p, l')"
    and loads: "lift_io (case json_loads sdk p of Inl e \<Rightarrow> Inl (Raised e) | Inr c \<Rightarrow> Inr c) l' = (Inr rows, l)"
    unfolding get_unused_content_def by (elim bind_io_InrE)
  from loads have "json_loads sdk p = Inr rows" and "l = l'"
    by (auto simp: lift_io_def split: sum.splits)
  with sdk_call_Inr [OF call] show ?thesis by simp
qed

lemma get_deleted_content_Inr:
  assumes "get_deleted_content sdk q log = (Inr rows, l)"
  shows "\<exists>p. run_query sdk (sent log) q ''json'' True = Inr p \<and> json_loads sdk p = Inr rows
             \<and> l = log @ [Sent (Run_query q ''json'' True)]"
proof -
  from assms obtain p l' where
    call: "sdk_call (Run_query q ''json'' True) (\<lambda>h. run_query sdk h q ''json'' True) log = (Inr p, l')"
    and loads: "lift_io (case json_loads sdk p of Inl e \<Rightarrow> Inl (Raised e) | Inr c \<Rightarrow> Inr c) l' = (Inr rows, l)"
    unfolding get_deleted_content_def by (elim bind_io_InrE)
  from loads have "json_loads sdk p = Inr rows" and "l = l'"
    by (auto simp: lift_io_def split: sum.splits)
  with sdk_call_Inr [OF call] show ?thesis by simp
qed

lemma bind_for_each_soft_delete_dashboard:
  "bind_io (for_each (soft_delete_dashboard sdk) ids) (\<lambda>_. K) =
     (\<lambda>log. K (log @ concat (map (\<lambda>i. [Entered SoftDeleteDashboard i,
                   Sent (Update_dashboard (py_str i) (WriteDashboard False))]) ids)))"
  by (rule ext) (simp add: bind_io_def for_each_soft_delete_dashboard)

lemma bind_for_each_soft_delete_look:
  "bind_io (for_each (soft_delete_look sdk) ids) (\<lambda>_. K) =
     (\<lambda>log. K (log @ concat (map (\<lambda>i. [Entered SoftDeleteLook i,
                   Sent (Update_look (py_str i) (WriteLookWithQuery False))]) ids)))"
  by (rule ext) (simp add: bind_io_def for_each_soft_delete_look)

lemma bind_for_each_hard_delete_dashboard:
  "bind_io (for_each (hard_delete_dashboard sdk) ids) (\<lambda>_. K) =
     (\<lambda>log. K (log @ map (Entered HardDeleteDashboard) ids))"
  by (rule ext) (simp add: bind_io_def for_each_hard_delete_dashboard)

lemma bind_for_each_hard_delete_look:
  "bind_io (for_each (hard_delete_look sdk) ids) (\<lambda>_. K) =
     (\<lambda>log. K (log @ map (Entered HardDeleteLook) ids))"
  by (rule ext) (simp add: bind_io_def for_each_hard_delete_look)

lemma bind_io_cases:
  assumes "bind_io m f log = (r, log')"
  obtains (raised) e where "m log = (Inl e, log')" and "r = Inl e"
        | (returned) x l where "m log = (Inr x, l)" and "f x l = (r, log')"
  using assms by (auto simp: bind_io_def split: prod.splits sum.splits)

lemma sdk_call_log: "sdk_call q answer log = (r, l) \<Longrightarrow> l = log @ [Sent q]"
  by (auto simp: sdk_call_def split: sum.splits)

lemma get_content_Inl:
  "get_unused_content sdk q log = (Inl e, l) \<Longrightarrow> calls l = calls log"
  "get_deleted_content sdk q log = (Inl e, l) \<Longrightarrow> calls l = calls log"
  by (auto simp: get_unused_content_def get_deleted_content_def bind_io_def lift_io_def
        sdk_call_def split: sum.splits)

lemma for_each_never_Inl:
  "for_each (soft_delete_dashboard sdk) ids log \<noteq> (Inl e, l)"
  "for_each (soft_delete_look sdk) ids log \<noteq> (Inl e, l)"
  "for_each (hard_delete_dashboard sdk) ids log \<noteq> (Inl e, l)"
  "for_each (hard_delete_look sdk) ids log \<noteq> (Inl e, l)"
  by (simp_all add: for_each_soft_delete_dashboard for_each_soft_delete_look
        for_each_hard_delete_dashboard for_each_hard_delete_look)

lemma send_content_notification_never_Inl:
  "send_content_notification sdk q k a log \<noteq> (Inl e, l)"
  by (simp add: send_content_notification_def Let_def split: sum.splits)


lemma get_query_id_log:
  "get_unused_content_query_id sdk d log = (r, l) \<Longrightarrow>
     l = log @ [Sent (Create_query (unused_content_query d))]"
  "get_deleted_content_query_id sdk d log = (r, l) \<Longrightarrow>
     l = log @ [Sent (Create_query (deleted_query d))]"
  by (auto simp: get_unused_content_query_id_def get_deleted_content_query_id_def dest: sdk_call_log)

lemma get_query_id_Inr:
  "get_unused_content_query_id sdk d log = (Inr q, l) \<Longrightarrow>
     create_query sdk (sent log) (unused_content_query d) = Inr q"
  "get_deleted_content_query_id sdk d log = (Inr q, l) \<Longrightarrow>
     create_query sdk (sent log) (deleted_query d) = Inr q"
  by (auto simp: get_unused_content_query_id_def get_deleted_content_query_id_def dest: sdk_call_Inr)

lemma lift_io_log: "lift_io x log = (r, l) \<Longrightarrow> l = log"
  by (simp add: lift_io_def)

lemma soft_pass_cases:
  assumes "bind_io (get_unused_content_query_id sdk days) (\<lambda>unused_content_query_id.
     bind_io (get_unused_content sdk unused_content_query_id) (\<lambda>unused_content.
     bind_io (lift_io (get_dashboard_ids unused_content)) (\<lambda>unused_dashboard_ids.
     bind_io (lift_io (get_look_ids unused_content)) (\<lambda>unused_look_ids.
     bind_io (for_each (soft_delete_dashboard sdk) unused_dashboard_ids) (\<lambda>_.
     bind_io (for_each (soft_delete_look sdk) unused_look_ids) (\<lambda>_.
     bind_io (send_content_notification sdk unused_content_query_id kind addr) (\<lambda>_.
     K))))))) log0 = (r, log)"
  shows "(isl r \<and> calls log = calls log0)
     \<or> (\<exists>q1 p1 rows1 d1 l1 n1 g.
           create_query sdk (sent log0) (unused_content_query days) = Inr q1
         \<and> run_query sdk (sent log0 @ [Create_query (unused_content_query days)]) q1 ''json'' True = Inr p1
         \<and> json_loads sdk p1 = Inr rows1
         \<and> get_dashboard_ids rows1 = Inr d1 \<and> get_look_ids rows1 = Inr l1
         \<and> calls g = calls log0
              @ map (Pair SoftDeleteDashboard) d1 @ map (Pair SoftDeleteLook) l1
         \<and> sent g = sent log0
              @ [Create_query (unused_content_query days), Run_query q1 ''json'' True]
              @ map (\<lambda>i. Update_dashboard (py_str i) (WriteDashboard False)) d1
              @ map (\<lambda>i. Update_look (py_str i) (WriteLookWithQuery False)) l1
              @ [Scheduled_plan_run_once n1]
         \<and> K g = (r, log))"
  using assms
proof (elim bind_io_cases, goal_cases)
  case (1 e)
  from get_query_id_log(1) [OF 1(1)] 1(2) have "isl r \<and> calls log = calls log0" by simp
  then show ?case by (rule disjI1)
next
  case (2 q g1 e)
  from get_query_id_log(1) [OF 2(1)] get_content_Inl(1) [OF 2(2)] 2(3)
  have "isl r \<and> calls log = calls log0" by simp
  then show ?case by (rule disjI1)
next
  case (3 q g1 rows g2 e)
  from get_unused_content_Inr [OF 3(2)] have "calls g2 = calls g1" by auto
  with get_query_id_log(1) [OF 3(1)] lift_io_log [OF 3(3)] 3(4)
  have "isl r \<and> calls log = calls log0" by simp
  then show ?case by (rule disjI1)
next
  case (4 q g1 rows g2 d g3 e)
  from get_unused_content_Inr [OF 4(2)] have "calls g2 = calls g1" by auto
  with get_query_id_log(1) [OF 4(1)] lift_io_log [OF 4(3)] lift_io_log [OF 4(4)] 4(5)
  have "isl r \<and> calls log = calls log0" by simp
  then show ?case by (rule disjI1)
next
  case 5
  then show ?case by (simp add: for_each_never_Inl)
next
  case 6
  then show ?case by (simp add: for_each_never_Inl)
next
  case 7
  then show ?case by (simp add: send_content_notification_never_Inl)
next
  case (8 q1 g1 rows1 g2 d1 g3 l1 g4 u1 g5 u2 g6 n g7)
  have c1: "create_query sdk (sent log0) (unused_content_query days) = Inr q1"
    and g1: "g1 = log0 @ [Sent (Create_query (unused_content_query days))]"
    using 8(1) by (auto dest: get_query_id_log get_query_id_Inr)
  from get_unused_content_Inr [OF 8(2)] obtain p1 where
    p1: "run_query sdk (sent g1) q1 ''json'' True = Inr p1" "json_loads sdk p1 = Inr rows1"
    and g2: "g2 = g1 @ [Sent (Run_query q1 ''json'' True)]" by blast
  from 8(3) have d1: "get_dashboard_ids rows1 = Inr d1" and g3: "g3 = g2"
    by (auto dest: lift_io_Inr)
  from 8(4) have l1: "get_look_ids rows1 = Inr l1" and g4: "g4 = g3"
    by (auto dest: lift_io_Inr)
  from 8(5) have g5: "g5 = g4 @ concat (map (\<lambda>i. [Entered SoftDeleteDashboard i,
      Sent (Update_dashboard (py_str i) (WriteDashboard False))]) d1)"
    by (simp add: for_each_soft_delete_dashboard)
  from 8(6) have g6: "g6 = g5 @ concat (map (\<lambda>i. [Entered SoftDeleteLook i,
      Sent (Update_look (py_str i) (WriteLookWithQuery False))]) l1)"
    by (simp add: for_each_soft_delete_look)
  define n1 where "n1 = unused_content_notification q1 kind addr (today sdk (sent g6))"
  from send_content_notification_log [OF 8(7)]
  have g7: "g7 = g6 @ [Sent (Scheduled_plan_run_once n1)]"
    by (simp add: n1_def)
  have "calls g7 = calls log0
         @ map (Pair SoftDeleteDashboard) d1 @ map (Pair SoftDeleteLook) l1"
    by (simp add: g7 g6 g5 g4 g3 g2 g1 calls_soft_dashboard calls_soft_look)
  moreover have "sent g7 = sent log0
         @ [Create_query (unused_content_query days), Run_query q1 ''json'' True]
         @ map (\<lambda>i. Update_dashboard (py_str i) (WriteDashboard False)) d1
         @ map (\<lambda>i. Update_look (py_str i) (WriteLookWithQuery False)) l1
         @ [Scheduled_plan_run_once n1]"
    by (simp add: g7 g6 g5 g4 g3 g2 g1 sent_soft_dashboard sent_soft_look)
  moreover from p1 have "run_query sdk (sent log0 @ [Create_query (unused_content_query days)]) q1 ''json'' True = Inr p1"
    by (simp add: g1)
  ultimately show ?case using c1 p1(2) d1 l1 8(8) by blast
qed


lemma hard_pass_cases:
  assumes "bind_io (get_deleted_content_query_id sdk days) (\<lambda>deleted_content_query_id.
     bind_io (get_deleted_content sdk deleted_content_query_id) (\<lambda>deleted_content.
     bind_io (lift_io (get_dashboard_ids deleted_content)) (\<lambda>deleted_dashboard_ids.
     bind_io (lift_io (get_look_ids deleted_content)) (\<lambda>deleted_look_ids.
     bind_io (for_each (hard_delete_dashboard sdk) deleted_dashboard_ids) (\<lambda>_.
     bind_io (for_each (hard_delete_look sdk) deleted_look_ids) (\<lambda>_.
     bind_io (send_content_notification sdk deleted_content_query_id kind addr) (\<lambda>_.
     K))))))) log0 = (r, log)"
  shows "(isl r \<and> calls log = calls log0)
     \<or> (\<exists>q2 p2 rows2 d2 l2 n2 g.
           create_query sdk (sent log0) (deleted_query days) = Inr q2
         \<and> run_query sdk (sent log0 @ [Create_query (deleted_query days)]) q2 ''json'' True = Inr p2
         \<and> json_loads sdk p2 = Inr rows2
         \<and> get_dashboard_ids rows2 = Inr d2 \<and> get_look_ids rows2 = Inr l2
         \<and> calls g = calls log0
              @ map (Pair HardDeleteDashboard) d2 @ map (Pair HardDeleteLook) l2
         \<and> sent g = sent log0
              @ [Create_query (deleted_query days), Run_query q2 ''json'' True,
                 Scheduled_plan_run_once n2]
         \<and> K g = (r, log))"
  using assms
proof (elim bind_io_cases, goal_cases)
  case (1 e)
  from get_query_id_log(2) [OF 1(1)] 1(2) have "isl r \<and> calls log = calls log0" by simp
  then show ?case by (rule disjI1)
next
  case (2 q g1 e)
  from get_query_id_log(2) [OF 2(1)] get_content_Inl(2) [OF 2(2)] 2(3)
  have "isl r \<and> calls log = calls log0" by simp
  then show ?case by (rule disjI1)
next
  case (3 q g1 rows g2 e)
  from get_deleted_content_Inr [OF 3(2)] have "calls g2 = calls g1" by auto
  with get_query_id_log(2) [OF 3(1)] lift_io_log [OF 3(3)] 3(4)
  have "isl r \<and> calls log = calls log0" by simp
  then show ?case by (rule disjI1)
next
  case (4 q g1 rows g2 d g3 e)
  from get_deleted_content_Inr [OF 4(2)] have "calls g2 = calls g1" by auto
  with get_query_id_log(2) [OF 4(1)] lift_io_log [OF 4(3)] lift_io_log [OF 4(4)] 4(5)
  have "isl r \<and> calls log = calls log0" by simp
  then show ?case by (rule disjI1)
next
  case 5
  then show ?case by (simp add: for_each_never_Inl)
next
  case 6
  then show ?case by (simp add: for_each_never_Inl)
next
  case 7
  then show ?case by (simp add: send_content_notification_never_Inl)
next
  case (8 q2 g1 rows2 g2 d2 g3 l2 g4 u1 g5 u2 g6 n g7)
  have c2: "create_query sdk (sent log0) (deleted_query days) = Inr q2"
    and g1: "g1 = log0 @ [Sent (Create_query (deleted_query days))]"
    using 8(1) by (auto dest: get_query_id_log get_query_id_Inr)
  from get_deleted_content_Inr [OF 8(2)] obtain p2 where
    p2: "run_query sdk (sent g1) q2 ''json'' True = Inr p2" "json_loads sdk p2 = Inr rows2"
    and g2: "g2 = g1 @ [Sent (Run_query q2 ''json'' True)]" by blast
  from 8(3) have d2: "get_dashboard_ids rows2 = Inr d2" and g3: "g3 = g2"
    by (auto dest: lift_io_Inr)
  from 8(4) have l2: "get_look_ids rows2 = Inr l2" and g4: "g4 = g3"
    by (auto dest: lift_io_Inr)
  from 8(5) have g5: "g5 = g4 @ map (Entered HardDeleteDashboard) d2"
    by (simp add: for_each_hard_delete_dashboard)
  from 8(6) have g6: "g6 = g5 @ map (Entered HardDeleteLook) l2"
    by (simp add: for_each_hard_delete_look)
  define n2 where "n2 = unused_content_notification q2 kind addr (today sdk (sent g6))"
  from send_content_notification_log [OF 8(7)]
  have g7: "g7 = g6 @ [Sent (Scheduled_plan_run_once n2)]"
    by (simp add: n2_def)
  have "calls g7 = calls log0
         @ map (Pair HardDeleteDashboard) d2 @ map (Pair HardDeleteLook) l2"
    by (simp add: g7 g6 g5 g4 g3 g2 g1 calls_Entered)
  moreover have "sent g7 = sent log0
         @ [Create_query (deleted_query days), Run_query q2 ''json'' True,
            Scheduled_plan_run_once n2]"
    by (simp add: g7 g6 g5 g4 g3 g2 g1 sent_Entered)
  moreover from p2 have "run_query sdk (sent log0 @ [Create_query (deleted_query days)]) q2 ''json'' True = Inr p2"
    by (simp add: g1)
  ultimately show ?case using c2 p2(2) d2 l2 8(8) by blast
qed

text \<open>
  C8. In every run of \<open>main\<close>, completed or abandoned on an exception, each pass either enters
  no mutation operation, or enters first the dashboard operation on the dashboard ids of its
  query's rows, in row order, and then the look operation on their look ids, in row order;
  the soft-delete pass comes before the hard-delete pass, the requests of a completed run
  reach the remote in the same order, and both queries ask for the rows sorted by
  last-accessed date.
\<close>

theorem main_mutation_order:
  assumes "main sdk request log0 = (r, log)"
  shows "sorts (unused_content_query DAYS_BEFORE_SOFT_DELETE) = [''content_usage.last_accessed_date'']
    \<and> sorts (deleted_query DAYS_BEFORE_HARD_DELETE) = [''content_usage.last_accessed_date'']
    \<and> ((isl r \<and> calls log = calls log0)
       \<or> (\<exists>q1 p1 rows1 d1 l1.
             create_query sdk (sent log0) (unused_content_query DAYS_BEFORE_SOFT_DELETE) = Inr q1
           \<and> run_query sdk (sent log0 @ [Create_query (unused_content_query DAYS_BEFORE_SOFT_DELETE)])
                q1 ''json'' True = Inr p1
           \<and> json_loads sdk p1 = Inr rows1
           \<and> get_dashboard_ids rows1 = Inr d1 \<and> get_look_ids rows1 = Inr l1
           \<and> ((isl r \<and> calls log = calls log0
                  @ map (Pair SoftDeleteDashboard) d1 @ map (Pair SoftDeleteLook) l1)
              \<or> (\<exists>n1 h2 q2 p2 rows2 d2 l2 n2.
                    h2 = sent log0
                      @ [Create_query (unused_content_query DAYS_BEFORE_SOFT_DELETE),
                         Run_query q1 ''json'' True]
                      @ map (\<lambda>i. Update_dashboard (py_str i) (WriteDashboard False)) d1
                      @ map (\<lambda>i. Update_look (py_str i) (WriteLookWithQuery False)) l1
                      @ [Scheduled_plan_run_once n1]
                  \<and> create_query sdk h2 (deleted_query DAYS_BEFORE_HARD_DELETE) = Inr q2
                  \<and> run_query sdk (h2 @ [Create_query (deleted_query DAYS_BEFORE_HARD_DELETE)])
                       q2 ''json'' True = Inr p2
                  \<and> json_loads sdk p2 = Inr rows2
                  \<and> get_dashboard_ids rows2 = Inr d2 \<and> get_look_ids rows2 = Inr l2
                  \<and> r = Inr ''Successfully ran soft delete and hard delete content automation.''
                  \<and> calls log = calls log0
                      @ map (Pair SoftDeleteDashboard) d1 @ map (Pair SoftDeleteLook) l1
                      @ map (Pair HardDeleteDashboard) d2 @ map (Pair HardDeleteLook) l2
                  \<and> sent log = h2
                      @ [Create_query (deleted_query DAYS_BEFORE_HARD_DELETE),
                         Run_query q2 ''json'' True, Scheduled_plan_run_once n2]))))"
proof -
  have sorts: "sorts (unused_content_query DAYS_BEFORE_SOFT_DELETE) = [''content_usage.last_accessed_date'']"
    "sorts (deleted_query DAYS_BEFORE_HARD_DELETE) = [''content_usage.last_accessed_date'']"
    by (simp_all add: unused_content_query_def deleted_query_def)
  note run = assms [unfolded main_def]
  from soft_pass_cases [OF run]
  consider (early) "isl r \<and> calls log = calls log0"
    | (soft) q1 p1 rows1 d1 l1 n1 g where
        "create_query sdk (sent log0) (unused_content_query DAYS_BEFORE_SOFT_DELETE) = Inr q1"
        "run_query sdk (sent log0 @ [Create_query (unused_content_query DAYS_BEFORE_SOFT_DELETE)])
           q1 ''json'' True = Inr p1"
        "json_loads sdk p1 = Inr rows1"
        "get_dashboard_ids rows1 = Inr d1" "get_look_ids rows1 = Inr l1"
        "calls g = calls log0 @ map (Pair SoftDeleteDashboard) d1 @ map (Pair SoftDeleteLook) l1"
        "sent g = sent log0
              @ [Create_query (unused_content_query DAYS_BEFORE_SOFT_DELETE), Run_query q1 ''json'' True]
              @ map (\<lambda>i. Update_dashboard (py_str i) (WriteDashboard False)) d1
              @ map (\<lambda>i. Update_look (py_str i) (WriteLookWithQuery False)) l1
              @ [Scheduled_plan_run_once n1]"
        "bind_io (get_deleted_content_query_id sdk DAYS_BEFORE_HARD_DELETE) (\<lambda>deleted_content_query_id.
     bind_io (get_deleted_content sdk deleted_content_query_id) (\<lambda>deleted_content.
     bind_io (lift_io (get_dashboard_ids deleted_content)) (\<lambda>deleted_dashboard_ids.
     bind_io (lift_io (get_look_ids deleted_content)) (\<lambda>deleted_look_ids.
     bind_io (for_each (hard_delete_dashboard sdk) deleted_dashboard_ids) (\<lambda>_.
     bind_io (for_each (hard_delete_look sdk) deleted_look_ids) (\<lambda>_.
     bind_io (send_content_notification sdk deleted_content_query_id ''hard''
                NOTIFICATION_EMAIL_ADDRESS) (\<lambda>_.
     return_io ''Successfully ran soft delete and hard delete content automation.''))))))) g = (r, log)"
    by blast
  then show ?thesis
  proof cases
    case early
    with sorts show ?thesis by blast
  next
    case soft
    from hard_pass_cases [OF soft(8)] show ?thesis
    proof (elim disjE exE conjE)
      assume "isl r" and "calls log = calls g"
      with soft(1-6) sorts show ?thesis by auto
    next
      fix q2 p2 rows2 d2 l2 n2 g'
      assume h: "create_query sdk (sent g) (deleted_query DAYS_BEFORE_HARD_DELETE) = Inr q2"
        "run_query sdk (sent g @ [Create_query (deleted_query DAYS_BEFORE_HARD_DELETE)]) q2 ''json'' True = Inr p2"
        "json_loads sdk p2 = Inr rows2"
        "get_dashboard_ids rows2 = Inr d2" "get_look_ids rows2 = Inr l2"
        "calls g' = calls g @ map (Pair HardDeleteDashboard) d2 @ map (Pair HardDeleteLook) l2"
        "sent g' = sent g @ [Create_query (deleted_query DAYS_BEFORE_HARD_DELETE),
                 Run_query q2 ''json'' True, Scheduled_plan_run_once n2]"
        "return_io ''Successfully ran soft delete and hard delete content automation.'' g' = (r, log)"
      from h(8) have r: "r = Inr ''Successfully ran soft delete and hard delete content automation.''"
        and log: "log = g'" by (simp_all add: return_io_def)
      from h(6) soft(6) have "calls log = calls log0
                      @ map (Pair SoftDeleteDashboard) d1 @ map (Pair SoftDeleteLook) l1
                      @ map (Pair HardDeleteDashboard) d2 @ map (Pair HardDeleteLook) l2"
        by (simp add: log)
      with soft(1-5,7) h(1-5,7) r log sorts show ?thesis by blast
    qed
  qed
qed

theorem main_mutation_order_witness:
  "fst (main failing_remote () []) = Inr ''Successfully ran soft delete and hard delete content automation.''
   \<and> calls (snd (main failing_remote () [])) =
       [(SoftDeleteDashboard, PyStr ''1''), (SoftDeleteDashboard, PyStr ''1''),
        (SoftDeleteLook, PyStr ''9''), (SoftDeleteLook, PyNone),
        (HardDeleteDashboard, PyStr ''1''), (HardDeleteDashboard, PyStr ''1''),
        (HardDeleteLook, PyStr ''9''), (HardDeleteLook, PyNone)]"
proof -
  have ok: "fst (main failing_remote () []) = Inr ''Successfully ran soft delete and hard delete content automation.''"
    by code_simp
  then have run: "main failing_remote () [] =
      (Inr ''Successfully ran soft delete and hard delete content automation.'',
       snd (main failing_remote () []))"
    by (simp add: prod_eq_iff)
  from main_mutation_order [OF run] obtain p1 rows1 d1 l1 p2 rows2 d2 l2 where
    r1: "json_loads failing_remote p1 = Inr rows1"
    and d1: "get_dashboard_ids rows1 = Inr d1" and l1: "get_look_ids rows1 = Inr l1"
    and r2: "json_loads failing_remote p2 = Inr rows2"
    and d2: "get_dashboard_ids rows2 = Inr d2" and l2: "get_look_ids rows2 = Inr l2"
    and calls: "calls (snd (main failing_remote () [])) = calls []
         @ map (Pair SoftDeleteDashboard) d1 @ map (Pair SoftDeleteLook) l1
         @ map (Pair HardDeleteDashboard) d2 @ map (Pair HardDeleteLook) l2"
    by (elim conjE disjE exE) simp_all
  from r1 r2 have rows: "rows1 = example_rows" "rows2 = example_rows"
    by (simp_all add: failing_remote_def split: if_splits)
  have "get_dashboard_ids example_rows = Inr [PyStr ''1'', PyStr ''1'']"
    by (simp add: example_rows_def subscript_def)
  moreover have "get_look_ids example_rows = Inr [PyStr ''9'', PyNone]"
    by (simp add: example_rows_def subscript_def)
  ultimately have "d1 = [PyStr ''1'', PyStr ''1'']" "l1 = [PyStr ''9'', PyNone]"
    "d2 = [PyStr ''1'', PyStr ''1'']" "l2 = [PyStr ''9'', PyNone]"
    using d1 l1 d2 l2 rows by simp_all
  with calls ok show ?thesis by simp
qed

text \<open>
  C9. When \<open>main\<close> completes, it returns the one fixed status string. The answers of the
  remote to the updates and to the scheduled plans reach neither that string nor the log:
  replacing them by any others leaves the run unchanged.
\<close>

theorem main_returns_fixed_status:
  "(main sdk request log0 = (Inr s, log) \<longrightarrow>
      s = ''Successfully ran soft delete and hard delete content automation.'')
   \<and> main (sdk\<lparr>update_dashboard := u, update_look := v, scheduled_plan_run_once := w\<rparr>) request log0
       = main sdk request log0"
proof
  show "main sdk request log0 = (Inr s, log) \<longrightarrow>
      s = ''Successfully ran soft delete and hard delete content automation.''"
  proof
    assume "main sdk request log0 = (Inr s, log)"
    then obtain g where
      "return_io ''Successfully ran soft delete and hard delete content automation.'' g = (Inr s, log)"
      unfolding main_def by (elim bind_io_InrE)
    then show "s = ''Successfully ran soft delete and hard delete content automation.''"
      by (simp add: return_io_def)
  qed
next
  show "main (sdk\<lparr>update_dashboard := u, update_look := v, scheduled_plan_run_once := w\<rparr>) request log0
       = main sdk request log0"
    unfolding main_def bind_for_each_soft_delete_dashboard bind_for_each_soft_delete_look
      bind_for_each_hard_delete_dashboard bind_for_each_hard_delete_look
      bind_send_content_notification
    by (simp add: get_unused_content_query_id_def get_unused_content_def
          get_deleted_content_query_id_def get_deleted_content_def)
qed

theorem main_returns_fixed_status_witness:
  "\<exists>log. main failing_remote () [] =
           (Inr ''Successfully ran soft delete and hard delete content automation.'', log)"
proof -
  have "\<not> isl (fst (main failing_remote () []))"
    by code_simp
  then obtain s where "fst (main failing_remote () []) = Inr s"
    by (cases "fst (main failing_remote () [])") auto
  then have run: "main failing_remote () [] = (Inr s, snd (main failing_remote () []))"
    by (simp add: prod_eq_iff)
  with main_returns_fixed_status [of failing_remote "()" "[]" s "snd (main failing_remote () [])"]
  show ?thesis by blast
qed

end
